theory Spec2Isabelle
  imports Complex_Main "HOL-Library.Multiset"
begin

section \<open>PredictionChart.tsx: the ten-year projection\<close>

text \<open>
  JavaScript numbers are modelled as \<open>real\<close>, and \<open>chartPoint\<close> below computes with the
  exact product and the exact power: it gives the formula of every chart value.  The
  rounding of the program's doubles is modelled further down (\<open>chartPointWith\<close>), for the
  properties that depend on it.  An optional
  property (\<open>mean_value?: number\<close>) is an \<open>option\<close>, with \<open>None\<close> for \<open>undefined\<close>.
  Reading a property of \<open>undefined\<close> throws a \<open>TypeError\<close> in JavaScript; the model keeps
  that as a value, so that "renders without error" is a statement about the result.
\<close>

datatype js_error = TypeError

record PriceRange =
  low :: real
  high :: real

record Factors =
  base_value :: real
  trim_multiplier :: real
  condition_multiplier :: real
  mileage_multiplier :: real

record PredictionData =
  predicted_value :: real
  mean_value :: "real option"
  price_range :: "PriceRange option"
  category :: "string option"
  factors :: "Factors option"
  confidence :: "string option"
  year :: int

record ChartPoint =
  year :: int
  predictedValue :: real
  meanValue :: "real option"
  lowRange :: "real option"
  highRange :: "real option"

text \<open>\<open>obj.f\<close> where \<open>obj\<close> may be \<open>undefined\<close>.\<close>

definition getProp :: "'a option \<Rightarrow> ('a \<Rightarrow> 'b) \<Rightarrow> js_error + 'b" where
  "getProp obj f = (case obj of None \<Rightarrow> Inl TypeError | Some x \<Rightarrow> Inr (f x))"

text \<open>
  Truthiness of \<open>number | undefined\<close> and of an optional object.  An optional string
  (\<open>category\<close>, \<open>confidence\<close>) is truthy when it is present and not empty; that test
  is written out where it is used.
\<close>

definition truthyNumber :: "real option \<Rightarrow> bool" where
  "truthyNumber v = (case v of None \<Rightarrow> False | Some x \<Rightarrow> x \<noteq> 0)"

definition truthyObject :: "'a option \<Rightarrow> bool" where
  "truthyObject v = (case v of None \<Rightarrow> False | Some x \<Rightarrow> True)"

text \<open>
  The callback of \<open>Array.from({ length: 10 }, (_, index) => ...)\<close>.  The current calendar
  year (\<open>new Date().getFullYear()\<close>) is a parameter.
\<close>

definition rangeValue ::
  "PriceRange option \<Rightarrow> (PriceRange \<Rightarrow> real) \<Rightarrow> real \<Rightarrow> js_error + real option" where
  "rangeValue pr f depreciation =
     (if truthyObject pr
      then (case getProp pr f of Inl e \<Rightarrow> Inl e | Inr v \<Rightarrow> Inr (Some (v * depreciation)))
      else Inr None)"

definition chartPoint :: "int \<Rightarrow> PredictionData \<Rightarrow> nat \<Rightarrow> js_error + ChartPoint" where
  "chartPoint currentYear data index =
     (let yearOffset = index;
          depreciation = (0.85 :: real) ^ yearOffset;
          predicted = predicted_value data * depreciation;
          mean = (if truthyNumber (mean_value data)
                  then map_option (\<lambda>m. m * depreciation) (mean_value data)
                  else None)
      in case rangeValue (price_range data) low depreciation of
           Inl e \<Rightarrow> Inl e
         | Inr lo \<Rightarrow>
             (case rangeValue (price_range data) high depreciation of
                Inl e \<Rightarrow> Inl e
              | Inr hi \<Rightarrow>
                  Inr \<lparr> year = currentYear + int yearOffset,
                        predictedValue = predicted,
                        meanValue = mean,
                        lowRange = lo,
                        highRange = hi \<rparr>))"

text \<open>Mapping a callback that may throw over an array: the first exception ends the map.\<close>

fun mapE :: "('a \<Rightarrow> js_error + 'b) \<Rightarrow> 'a list \<Rightarrow> js_error + 'b list" where
  "mapE f [] = Inr []"
| "mapE f (x # xs) =
     (case f x of
        Inl e \<Rightarrow> Inl e
      | Inr y \<Rightarrow> (case mapE f xs of Inl e \<Rightarrow> Inl e | Inr ys \<Rightarrow> Inr (y # ys)))"

definition chartData :: "int \<Rightarrow> PredictionData \<Rightarrow> js_error + ChartPoint list" where
  "chartData currentYear data = mapE (chartPoint currentYear data) [0 ..< 10]"

subsection \<open>The projection in IEEE double arithmetic\<close>

text \<open>
  \<open>chartPoint\<close> above computes in exact arithmetic.  The program computes in IEEE 754
  doubles: every product is rounded to the nearest double, ties to even, and a product
  below \<open>2^-1022\<close> is rounded on the fixed grid of the subnormal numbers, so that it can
  lose all its precision and become 0.  \<open>roundDouble\<close> is that rounding for magnitudes below
  \<open>2^1024\<close> (the model has no infinities): \<open>binade x\<close> is the exponent \<open>e\<close> with
  \<open>2^e \<le> x < 2^(e+1)\<close>, kept within \<open>-1022 .. 1023\<close>, and a double of that binade is a
  multiple of \<open>2^(e-52)\<close>.
\<close>

fun expDown :: "nat \<Rightarrow> real \<Rightarrow> int \<Rightarrow> int" where
  "expDown 0 x e = e"
| "expDown (Suc n) x e = (if x < 2 powi e then expDown n x (e - 1) else e)"

fun expUp :: "nat \<Rightarrow> real \<Rightarrow> int \<Rightarrow> int" where
  "expUp 0 x e = e"
| "expUp (Suc n) x e = (if 2 powi (e + 1) \<le> x then expUp n x (e + 1) else e)"

definition binade :: "real \<Rightarrow> int" where
  "binade x =
     (if x < 2 powi (- 1022) then - 1022
      else if 1 \<le> x then expUp 1023 x 0
      else expDown 1022 x 0)"

definition roundHalfEven :: "real \<Rightarrow> int" where
  "roundHalfEven r =
     (let f = \<lfloor>r\<rfloor>; d = r - of_int f
      in if d < 1 / 2 then f
         else if 1 / 2 < d then f + 1
         else if even f then f else f + 1)"

definition roundDouble :: "real \<Rightarrow> real" where
  "roundDouble x =
     (let q = 2 powi (binade \<bar>x\<bar> - 52)
      in sgn x * (of_int (roundHalfEven (\<bar>x\<bar> / q)) * q))"

text \<open>The operator \<open>*\<close> of the program.\<close>

definition timesDouble :: "real \<Rightarrow> real \<Rightarrow> real" where
  "timesDouble a b = roundDouble (a * b)"

text \<open>
  \<open>Math.pow\<close> belongs to the platform, and its result is an approximation that the
  language standard leaves to the implementation; the functions below take
  \<open>\<lambda>k. Math.pow(0.85, k)\<close> as the parameter \<open>pow\<close>.  \<open>pow85\<close> is the correctly rounded one,
  used where a concrete \<open>Math.pow\<close> is needed: the literal \<open>0.85\<close> is the double nearest to
  0.85, and the result is the double nearest to its power.
\<close>

definition pow85 :: "nat \<Rightarrow> real" where
  "pow85 k = roundDouble (roundDouble 0.85 ^ k)"

text \<open>
  The callback of \<open>chartData\<close> once more, with the product and the power as parameters.
  With the exact product and the exact power it is \<open>chartPoint\<close>; with \<open>timesDouble\<close> and
  \<open>Math.pow\<close> it is the computation of the program.
\<close>

definition rangeValueWith ::
  "(real \<Rightarrow> real \<Rightarrow> real) \<Rightarrow> PriceRange option \<Rightarrow> (PriceRange \<Rightarrow> real) \<Rightarrow> real \<Rightarrow>
   js_error + real option" where
  "rangeValueWith mul pr f depreciation =
     (if truthyObject pr
      then (case getProp pr f of Inl e \<Rightarrow> Inl e | Inr v \<Rightarrow> Inr (Some (mul v depreciation)))
      else Inr None)"

definition chartPointWith ::
  "(real \<Rightarrow> real \<Rightarrow> real) \<Rightarrow> (nat \<Rightarrow> real) \<Rightarrow> int \<Rightarrow> PredictionData \<Rightarrow> nat \<Rightarrow>
   js_error + ChartPoint" where
  "chartPointWith mul pow currentYear data index =
     (let yearOffset = index;
          depreciation = pow yearOffset;
          predicted = mul (predicted_value data) depreciation;
          mean = (if truthyNumber (mean_value data)
                  then map_option (\<lambda>m. mul m depreciation) (mean_value data)
                  else None)
      in case rangeValueWith mul (price_range data) low depreciation of
           Inl e \<Rightarrow> Inl e
         | Inr lo \<Rightarrow>
             (case rangeValueWith mul (price_range data) high depreciation of
                Inl e \<Rightarrow> Inl e
              | Inr hi \<Rightarrow>
                  Inr \<lparr> year = currentYear + int yearOffset,
                        predictedValue = predicted,
                        meanValue = mean,
                        lowRange = lo,
                        highRange = hi \<rparr>))"

definition chartDataWith ::
  "(real \<Rightarrow> real \<Rightarrow> real) \<Rightarrow> (nat \<Rightarrow> real) \<Rightarrow> int \<Rightarrow> PredictionData \<Rightarrow>
   js_error + ChartPoint list" where
  "chartDataWith mul pow currentYear data =
     mapE (chartPointWith mul pow currentYear data) [0 ..< 10]"

subsection \<open>The rendered chart\<close>

text \<open>
  The view keeps the parts of the JSX that depend on the data: the \<open>dataKey\<close> of every
  \<open>Line\<close> that is rendered, the data handed to the chart, the title, and the text of the
  value breakdown.  The two
  formatters of the platform (\<open>Intl.NumberFormat\<close> behind \<open>formatCurrency\<close>, and
  \<open>toFixed(1)\<close>) are kept symbolic: a \<open>piece\<close> records which number is formatted.
\<close>

datatype piece = Text string | Currency real | Fixed1 real

record ChartView =
  title :: string
  showLoadingOverlay :: bool
  lineChartData :: "ChartPoint list"
  lines :: "string list"
  breakdown :: "piece list list"

datatype view = Placeholder | Chart ChartView

definition defaultFactors :: Factors where
  "defaultFactors =
     \<lparr> base_value = 0, trim_multiplier = 1, condition_multiplier = 1, mileage_multiplier = 1 \<rparr>"

text \<open>\<open>data.factors || { ... }\<close>\<close>

definition factorsOrDefault :: "PredictionData \<Rightarrow> Factors" where
  "factorsOrDefault data = (case factors data of None \<Rightarrow> defaultFactors | Some f \<Rightarrow> f)"

definition chartTitle :: "PredictionData \<Rightarrow> string" where
  "chartTitle data =
     ''Value Prediction Over Time '' @
     (case category data of
        None \<Rightarrow> []
      | Some c \<Rightarrow> if c \<noteq> [] then ''('' @ c @ '')'' else [])"

definition chartLines :: "PredictionData \<Rightarrow> string list" where
  "chartLines data =
     [''predictedValue''] @
     (if truthyNumber (mean_value data) then [''meanValue''] else []) @
     (if truthyObject (price_range data) then [''lowRange'', ''highRange''] else [])"

definition factorLines :: "Factors \<Rightarrow> piece list list" where
  "factorLines f =
     [[Text ''Base Value: '', Currency (base_value f)],
      [Text ''Trim Adjustment: '', Fixed1 ((trim_multiplier f - 1) * 100), Text ''%''],
      [Text ''Condition Impact: '', Fixed1 ((condition_multiplier f - 1) * 100), Text ''%''],
      [Text ''Mileage Impact: '', Fixed1 ((mileage_multiplier f - 1) * 100), Text ''%'']]"

definition rangeLine :: "PriceRange option \<Rightarrow> js_error + piece list list" where
  "rangeLine pr =
     (if truthyObject pr
      then (case getProp pr low of
              Inl e \<Rightarrow> Inl e
            | Inr l \<Rightarrow>
                (case getProp pr high of
                   Inl e \<Rightarrow> Inl e
                 | Inr h \<Rightarrow>
                     Inr [[Text ''Current Value Range: '', Currency l, Text '' - '', Currency h]]))
      else Inr [])"

definition toUpperCaseChar :: "char \<Rightarrow> char" where
  "toUpperCaseChar c =
     (let n = (of_char c :: nat) in if 97 \<le> n \<and> n \<le> 122 then char_of (n - 32) else c)"

text \<open>\<open>data.confidence.charAt(0).toUpperCase() + data.confidence.slice(1)\<close>, on ASCII.\<close>

definition confidenceLine :: "string option \<Rightarrow> piece list list" where
  "confidenceLine conf =
     (case conf of
        None \<Rightarrow> []
      | Some c \<Rightarrow>
          if c \<noteq> []
          then [[Text ''Confidence Level: '', Text (map toUpperCaseChar (take 1 c) @ drop 1 c)]]
          else [])"

definition PredictionChart :: "int \<Rightarrow> PredictionData option \<Rightarrow> bool \<Rightarrow> js_error + view" where
  "PredictionChart currentYear data isLoading =
     (case data of
        None \<Rightarrow> Inr Placeholder
      | Some d \<Rightarrow>
          (case chartData currentYear d of
             Inl e \<Rightarrow> Inl e
           | Inr points \<Rightarrow>
               (case rangeLine (price_range d) of
                  Inl e \<Rightarrow> Inl e
                | Inr rangeText \<Rightarrow>
                    Inr (Chart \<lparr> title = chartTitle d,
                                 showLoadingOverlay = isLoading,
                                 lineChartData = points,
                                 lines = chartLines d,
                                 breakdown = factorLines (factorsOrDefault d) @ rangeText @
                                             confidenceLine (confidence d) \<rparr>))))"

text \<open>What a rendered view shows: its lines, its chart data and its breakdown text.\<close>

fun linesOf :: "view \<Rightarrow> string list" where
  "linesOf Placeholder = []"
| "linesOf (Chart v) = lines v"

fun pointsOf :: "view \<Rightarrow> ChartPoint list" where
  "pointsOf Placeholder = []"
| "pointsOf (Chart v) = lineChartData v"

fun breakdownOf :: "view \<Rightarrow> piece list list" where
  "breakdownOf Placeholder = []"
| "breakdownOf (Chart v) = breakdown v"

section \<open>CarPredictionForm.tsx: the form\<close>

subsection \<open>The form data and its dependent-field cascade\<close>

text \<open>
  \<open>formData\<close> is a JavaScript object: a finite map from property names to values.  A text
  field or a select delivers a string; the year starts as the number
  \<open>new Date().getFullYear()\<close>.  The current calendar year is a parameter.
\<close>

datatype field_value = Str string | Num int

type_synonym FormData = "string \<rightharpoonup> field_value"

definition initialFormData :: "int \<Rightarrow> FormData" where
  "initialFormData currentYear =
     [''make'' \<mapsto> Str '''', ''model'' \<mapsto> Str '''', ''trim'' \<mapsto> Str '''',
      ''year'' \<mapsto> Num currentYear, ''mileage'' \<mapsto> Str '''', ''condition'' \<mapsto> Str ''Good'',
      ''zip_code'' \<mapsto> Str '''']"

text \<open>
  The updater handed to \<open>setFormData\<close>, for the event \<open>{ name, value }\<close>:
  \<open>{ ...prev, [name]: value }\<close>, then the resets of the dependent fields.
\<close>

definition handleChange :: "int \<Rightarrow> string \<Rightarrow> field_value \<Rightarrow> FormData \<Rightarrow> FormData" where
  "handleChange currentYear name v prev =
     (let newData = prev(name \<mapsto> v)
      in if name = ''make''
         then newData(''model'' \<mapsto> Str '''', ''trim'' \<mapsto> Str '''', ''year'' \<mapsto> Num currentYear)
         else if name = ''model''
         then newData(''trim'' \<mapsto> Str '''', ''year'' \<mapsto> Num currentYear)
         else newData)"

subsection \<open>Strings\<close>

text \<open>
  Strings are lists of 8-bit characters.  The functions below are the JavaScript string
  functions on ASCII text, that is on strings whose character codes are all below 128:
  there \<open>trim\<close> removes exactly the codes 9 to 13 and 32, and \<open>toLowerCase\<close> maps
  \<open>A\<close>..\<open>Z\<close> to \<open>a\<close>..\<open>z\<close> and nothing else.  On other text the platform functions
  do more (they lower accented capitals and remove a no-break space), so every property of the
  names is stated for ASCII makes and model names only.
\<close>

definition isAscii :: "string \<Rightarrow> bool" where
  "isAscii s = list_all (\<lambda>c. (of_char c :: nat) < 128) s"

definition isWhiteSpace :: "char \<Rightarrow> bool" where
  "isWhiteSpace c = (let n = (of_char c :: nat) in (9 \<le> n \<and> n \<le> 13) \<or> n = 32)"

definition trim :: "string \<Rightarrow> string" where
  "trim s = rev (dropWhile isWhiteSpace (rev (dropWhile isWhiteSpace s)))"

definition toLowerCaseChar :: "char \<Rightarrow> char" where
  "toLowerCaseChar c =
     (let n = (of_char c :: nat) in if 65 \<le> n \<and> n \<le> 90 then char_of (n + 32) else c)"

definition toLowerCase :: "string \<Rightarrow> string" where
  "toLowerCase s = map toLowerCaseChar s"

definition startsWith :: "string \<Rightarrow> string \<Rightarrow> bool" where
  "startsWith s p = (take (length p) s = p)"

definition substring :: "string \<Rightarrow> nat \<Rightarrow> string" where
  "substring s n = drop n s"

subsection \<open>Sorting\<close>

text \<open>
  \<open>Array.prototype.sort\<close> with a comparator is a stable sort: \<open>x\<close> goes before \<open>y\<close> when
  \<open>cmp x y \<le> 0\<close> and \<open>x\<close> came first.  Insertion from the right gives exactly that order.
\<close>

fun insertSorted :: "('a \<Rightarrow> 'a \<Rightarrow> int) \<Rightarrow> 'a \<Rightarrow> 'a list \<Rightarrow> 'a list" where
  "insertSorted cmp x [] = [x]"
| "insertSorted cmp x (y # ys) =
     (if cmp x y \<le> 0 then x # y # ys else y # insertSorted cmp x ys)"

definition sortJS :: "('a \<Rightarrow> 'a \<Rightarrow> int) \<Rightarrow> 'a list \<Rightarrow> 'a list" where
  "sortJS cmp xs = foldr (insertSorted cmp) xs []"

text \<open>
  Modelled from the spec: \<open>String.prototype.localeCompare\<close> belongs to the platform, not to
  the repository, and the functions below take it as a parameter.  The spec calls the
  order lexicographic; \<open>lexCompare\<close> is that order on character codes, used where a
  concrete comparison is needed.
\<close>

fun lexCompare :: "string \<Rightarrow> string \<Rightarrow> int" where
  "lexCompare [] [] = 0"
| "lexCompare [] (y # ys) = - 1"
| "lexCompare (x # xs) [] = 1"
| "lexCompare (x # xs) (y # ys) =
     (if (of_char x :: nat) < of_char y then - 1
      else if (of_char y :: nat) < of_char x then 1
      else lexCompare xs ys)"

subsection \<open>The component state and its effects\<close>

record RawModel =
  Model_ID :: int
  Model_Name :: string
  Make_ID :: int

record CarModel =
  model_id :: int
  name :: string
  make_id :: int

record CarYear =
  year :: int

record FormState =
  loading :: bool
  error :: string
  models :: "CarModel list"
  trims :: "string list"
  years :: "CarYear list"
  loadingModels :: bool
  loadingTrims :: bool

text \<open>
  A request either resolves with the parsed body or ends in the \<open>catch\<close> block; every
  exception thrown inside the \<open>try\<close> is one \<open>http_error\<close>.
\<close>

datatype http_error = RequestFailed

text \<open>The name computed by the callback of \<open>response.data.Results.map\<close>; \<open>mk\<close> is
  \<open>formData.make\<close>.\<close>

definition modelName :: "string \<Rightarrow> string \<Rightarrow> string" where
  "modelName mk raw =
     (let name0 = trim raw
      in if startsWith (toLowerCase name0) (toLowerCase mk)
         then trim (substring name0 (length mk))
         else name0)"

definition toCarModel :: "string \<Rightarrow> RawModel \<Rightarrow> CarModel" where
  "toCarModel mk m =
     \<lparr> model_id = Model_ID m, name = modelName mk (Model_Name m), make_id = Make_ID m \<rparr>"

definition modelsData ::
  "(string \<Rightarrow> string \<Rightarrow> int) \<Rightarrow> string \<Rightarrow> RawModel list \<Rightarrow> CarModel list" where
  "modelsData localeCompare mk results =
     sortJS (\<lambda>a b. localeCompare (name a) (name b))
       (filter (\<lambda>m. name m \<noteq> []) (map (toCarModel mk) results))"

text \<open>The effect on \<open>[formData.make]\<close>, run to completion with the given response.\<close>

definition fetchModels ::
  "(string \<Rightarrow> string \<Rightarrow> int) \<Rightarrow> string \<Rightarrow> http_error + RawModel list \<Rightarrow> FormState \<Rightarrow> FormState"
  where
  "fetchModels localeCompare mk response s =
     (if mk = [] then s\<lparr> models := [] \<rparr>
      else
        let s1 = s\<lparr> loadingModels := True \<rparr>;
            s2 = (case response of
                    Inr results \<Rightarrow> s1\<lparr> models := modelsData localeCompare mk results \<rparr>
                  | Inl err \<Rightarrow>
                      s1\<lparr> error := ''Failed to load car models. Please try again.'',
                          models := [] \<rparr>)
        in s2\<lparr> loadingModels := False \<rparr>)"

text \<open>
  The effect on \<open>[formData.make, formData.model]\<close>.  The body of a resolved request holds
  a list of trims, or \<open>None\<close> when \<open>response.data.trims\<close> is missing or not an array.
\<close>

definition fetchTrims ::
  "string \<Rightarrow> string \<Rightarrow> http_error + string list option \<Rightarrow> FormState \<Rightarrow> FormState" where
  "fetchTrims mk model response s =
     (if mk = [] \<or> model = [] then s\<lparr> trims := [] \<rparr>
      else
        let s1 = s\<lparr> loadingTrims := True \<rparr>;
            s2 = (case response of
                    Inr (Some ts) \<Rightarrow> s1\<lparr> trims := ts \<rparr>
                  | Inr None \<Rightarrow> s1\<lparr> trims := [] \<rparr>
                  | Inl err \<Rightarrow>
                      s1\<lparr> error := ''Failed to load trim options. Please try again.'',
                          trims := [] \<rparr>)
        in s2\<lparr> loadingTrims := False \<rparr>)"

text \<open>The effect on \<open>[formData.model]\<close>: the year list, computed locally.\<close>

definition yearsData :: "int \<Rightarrow> CarYear list" where
  "yearsData currentYear =
     sortJS (\<lambda>a b. CarYear.year b - CarYear.year a)
       (map (\<lambda>i. \<lparr> year = currentYear - int i \<rparr>) [0 ..< 30])"

definition generateYears :: "int \<Rightarrow> string \<Rightarrow> FormState \<Rightarrow> FormState" where
  "generateYears currentYear model s =
     (if model \<noteq> [] then s\<lparr> years := yearsData currentYear \<rparr> else s\<lparr> years := [] \<rparr>)"

subsection \<open>Submission\<close>

text \<open>
  \<open>App\<close> owns the valuation result: \<open>onPrediction\<close> is its \<open>setPredictionData\<close>, and the
  effect on \<open>[loading]\<close> copies \<open>loading\<close> into its \<open>isLoading\<close>.
\<close>

record AppState =
  predictionData :: "PredictionData option"
  isLoading :: bool

definition handlePrediction :: "PredictionData \<Rightarrow> AppState \<Rightarrow> AppState" where
  "handlePrediction data app = app\<lparr> predictionData := Some data \<rparr>"

definition handleLoadingChange :: "bool \<Rightarrow> AppState \<Rightarrow> AppState" where
  "handleLoadingChange l app = app\<lparr> isLoading := l \<rparr>"

text \<open>\<open>handleSubmit\<close>, run to completion with the given response of the valuation endpoint.\<close>

definition handleSubmit ::
  "http_error + PredictionData \<Rightarrow> FormState \<times> AppState \<Rightarrow> FormState \<times> AppState" where
  "handleSubmit response st =
     (let (s, app) = st;
          s1 = s\<lparr> loading := True \<rparr>;
          s2 = s1\<lparr> error := [] \<rparr>;
          (s3, app3) = (case response of
                          Inr data \<Rightarrow> (s2, handlePrediction data app)
                        | Inl err \<Rightarrow>
                            (s2\<lparr> error := ''Failed to get prediction. Please try again.'' \<rparr>,
                             app));
          s4 = s3\<lparr> loading := False \<rparr>
      in (s4, handleLoadingChange (loading s4) app3))"

section \<open>Properties of the projection\<close>

subsection \<open>Closed forms\<close>

text \<open>
  The callback never throws: both reads of \<open>data.price_range\<close> sit behind the test of
  \<open>data.price_range\<close> itself.  Its result in closed form:
\<close>

lemma chartPoint_eq:
  "chartPoint cy d k =
     Inr \<lparr> ChartPoint.year = cy + int k,
           predictedValue = predicted_value d * 0.85 ^ k,
           meanValue = (case mean_value d of
                          None \<Rightarrow> None
                        | Some m \<Rightarrow> if m \<noteq> 0 then Some (m * 0.85 ^ k) else None),
           lowRange = map_option (\<lambda>pr. low pr * 0.85 ^ k) (price_range d),
           highRange = map_option (\<lambda>pr. high pr * 0.85 ^ k) (price_range d) \<rparr>"
  by (simp add: chartPoint_def rangeValue_def truthyObject_def truthyNumber_def getProp_def
        Let_def split: option.splits)

lemma mapE_Inr:
  "(\<And>x. x \<in> set xs \<Longrightarrow> f x = Inr (g x)) \<Longrightarrow> mapE f xs = Inr (map g xs)"
  by (induction xs) auto

lemma chartData_eq:
  "chartData cy d =
     Inr (map (\<lambda>k. \<lparr> ChartPoint.year = cy + int k,
                      predictedValue = predicted_value d * 0.85 ^ k,
                      meanValue = (case mean_value d of
                                     None \<Rightarrow> None
                                   | Some m \<Rightarrow> if m \<noteq> 0 then Some (m * 0.85 ^ k) else None),
                      lowRange = map_option (\<lambda>pr. low pr * 0.85 ^ k) (price_range d),
                      highRange = map_option (\<lambda>pr. high pr * 0.85 ^ k) (price_range d) \<rparr>)
            [0 ..< 10])"
  unfolding chartData_def by (rule mapE_Inr) (rule chartPoint_eq)

lemma rangeLine_eq:
  "rangeLine pr =
     Inr (case pr of
            None \<Rightarrow> []
          | Some r \<Rightarrow>
              [[Text ''Current Value Range: '', Currency (low r), Text '' - '',
                Currency (high r)]])"
  by (simp add: rangeLine_def truthyObject_def getProp_def split: option.splits)

subsection \<open>C1: one depreciation curve for the four series\<close>




subsection \<open>C7: a result without a price range\<close>

text \<open>
  C7 as written has the predicted-value series rendered alone whenever the price range is
  absent.  The market-average line does not depend on the price range: a result with a
  mean value and no price range is drawn with two lines.
\<close>

theorem C7_mean_line_counterexample:
  "map_sum id linesOf
     (PredictionChart 2026
        (Some \<lparr> predicted_value = 17955, mean_value = Some 16000, price_range = None,
                category = None, factors = None, confidence = None, year = 2026 \<rparr>) False)
   \<noteq> Inr [''predictedValue'']"
  by (simp add: PredictionChart_def chartData_eq rangeLine_eq chartLines_def
        truthyNumber_def truthyObject_def)

text \<open>
  C7, amended: for every valuation result whose price range is absent, the component
  renders without error; all ten chart points are computed, each with low and high range
  values absent; neither range line is rendered (the predicted-value line is alone when the
  mean value is absent or zero, and is followed by the market-average line otherwise); and
  the breakdown has no value-range line.
\<close>

theorem C7_absent_price_range:
  assumes "price_range d = None"
  shows "\<exists>v. PredictionChart cy (Some d) l = Inr v \<and>
           length (pointsOf v) = 10 \<and>
           (\<forall>p \<in> set (pointsOf v). lowRange p = None \<and> highRange p = None) \<and>
           linesOf v = (if mean_value d = None \<or> mean_value d = Some 0
                        then [''predictedValue'']
                        else [''predictedValue'', ''meanValue'']) \<and>
           breakdownOf v = factorLines (factorsOrDefault d) @ confidenceLine (confidence d)"
  using assms
  by (auto simp add: PredictionChart_def chartData_eq rangeLine_eq chartLines_def
        truthyObject_def truthyNumber_def simp del: upt_Suc split: option.splits)

theorem C7_absent_price_range_witness:
  "price_range \<lparr> predicted_value = 17955, mean_value = None, price_range = None,
                 category = None, factors = None, confidence = None, year = 2026 \<rparr> = None \<and>
   (\<exists>v. PredictionChart 2026
           (Some \<lparr> predicted_value = 17955, mean_value = None, price_range = None,
                   category = None, factors = None, confidence = None, year = 2026 \<rparr>)
           False = Inr v \<and>
        length (pointsOf v) = 10 \<and>
        linesOf v = [''predictedValue''] \<and>
        breakdownOf v = factorLines defaultFactors)"
  using C7_absent_price_range [of
          "\<lparr> predicted_value = 17955, mean_value = None, price_range = None,
             category = None, factors = None, confidence = None, year = 2026 \<rparr>" 2026 False]
  by (auto simp add: factorsOrDefault_def confidenceLine_def)

subsection \<open>C8: the predicted series in double arithmetic\<close>

text \<open>
  Whether the series falls strictly and stays positive depends on the rounding of the
  products, so C8 is settled on the callback in double arithmetic.  With the exact product
  and the exact power that callback is \<open>chartPoint\<close>.
\<close>

lemma chartPointWith_eq:
  "chartPointWith mul pow cy d k =
     Inr \<lparr> ChartPoint.year = cy + int k,
           predictedValue = mul (predicted_value d) (pow k),
           meanValue = (case mean_value d of
                          None \<Rightarrow> None
                        | Some m \<Rightarrow> if m \<noteq> 0 then Some (mul m (pow k)) else None),
           lowRange = map_option (\<lambda>pr. mul (low pr) (pow k)) (price_range d),
           highRange = map_option (\<lambda>pr. mul (high pr) (pow k)) (price_range d) \<rparr>"
  by (simp add: chartPointWith_def rangeValueWith_def truthyObject_def truthyNumber_def
        getProp_def Let_def split: option.splits)

lemma chartDataWith_eq:
  "chartDataWith mul pow cy d =
     Inr (map (\<lambda>k. \<lparr> ChartPoint.year = cy + int k,
                      predictedValue = mul (predicted_value d) (pow k),
                      meanValue = (case mean_value d of
                                     None \<Rightarrow> None
                                   | Some m \<Rightarrow> if m \<noteq> 0 then Some (mul m (pow k)) else None),
                      lowRange = map_option (\<lambda>pr. mul (low pr) (pow k)) (price_range d),
                      highRange = map_option (\<lambda>pr. mul (high pr) (pow k)) (price_range d) \<rparr>)
            [0 ..< 10])"
  unfolding chartDataWith_def by (rule mapE_Inr) (rule chartPointWith_eq)

lemma chartData_exact: "chartData cy d = chartDataWith (*) (\<lambda>k. 0.85 ^ k) cy d"
  by (simp only: chartData_eq chartDataWith_eq)

text \<open>
  The exponent found by \<open>binade\<close> brackets its argument, and \<open>roundDouble\<close> moves a number
  of the normal range by at most the relative error \<open>2^-53\<close>.
\<close>

lemma expDown_bounds:
  "x < 2 powi (e + 1) \<Longrightarrow> 2 powi (e - int n) \<le> x \<Longrightarrow>
   2 powi (expDown n x e) \<le> x \<and> x < 2 powi (expDown n x e + 1)"
proof (induction n arbitrary: e)
  case 0
  then show ?case by simp
next
  case (Suc n)
  show ?case
  proof (cases "x < 2 powi e")
    case True
    have "2 powi (expDown n x (e - 1)) \<le> x \<and> x < 2 powi (expDown n x (e - 1) + 1)"
    proof (rule Suc.IH)
      show "x < 2 powi (e - 1 + 1)" using True by simp
      show "2 powi (e - 1 - int n) \<le> x" using Suc.prems(2) by (simp add: algebra_simps)
    qed
    with True show ?thesis by simp
  next
    case False
    with Suc.prems show ?thesis by simp
  qed
qed

lemma expUp_bounds:
  "2 powi e \<le> x \<Longrightarrow> x < 2 powi (e + int n + 1) \<Longrightarrow>
   2 powi (expUp n x e) \<le> x \<and> x < 2 powi (expUp n x e + 1)"
proof (induction n arbitrary: e)
  case 0
  then show ?case by simp
next
  case (Suc n)
  show ?case
  proof (cases "2 powi (e + 1) \<le> x")
    case True
    have "2 powi (expUp n x (e + 1)) \<le> x \<and> x < 2 powi (expUp n x (e + 1) + 1)"
    proof (rule Suc.IH)
      show "2 powi (e + 1) \<le> x" by (rule True)
      show "x < 2 powi (e + 1 + int n + 1)" using Suc.prems(2) by (simp add: algebra_simps)
    qed
    with True show ?thesis by simp
  next
    case False
    with Suc.prems show ?thesis by simp
  qed
qed

lemma binade_bounds:
  assumes "2 powi (- 1022) \<le> x" and "x < 2 powi 1024"
  shows "2 powi (binade x) \<le> x \<and> x < 2 powi (binade x + 1)"
proof (cases "1 \<le> x")
  case True
  have "2 powi (expUp 1023 x 0) \<le> x \<and> x < 2 powi (expUp 1023 x 0 + 1)"
  proof (rule expUp_bounds)
    show "2 powi 0 \<le> x" using True by simp
    show "x < 2 powi (0 + int 1023 + 1)" using assms(2) by simp
  qed
  moreover have "binade x = expUp 1023 x 0"
    using True assms(1) by (simp add: binade_def)
  ultimately show ?thesis by simp
next
  case False
  have "2 powi (expDown 1022 x 0) \<le> x \<and> x < 2 powi (expDown 1022 x 0 + 1)"
  proof (rule expDown_bounds)
    show "x < 2 powi (0 + 1)" using False by simp
    show "2 powi (0 - int 1022) \<le> x" using assms(1) by simp
  qed
  moreover have "binade x = expDown 1022 x 0"
    using False assms(1) by (simp add: binade_def)
  ultimately show ?thesis by simp
qed

lemma roundHalfEven_error: "\<bar>of_int (roundHalfEven r) - r\<bar> \<le> 1 / 2"
  unfolding roundHalfEven_def Let_def by (auto; linarith)

lemma roundDouble_error:
  assumes "2 powi (- 1022) \<le> x" and "x < 2 powi 1024"
  shows "\<bar>roundDouble x - x\<bar> \<le> x / 2 ^ 53"
proof -
  have pos: "0 < x"
    using assms(1) by (rule less_le_trans [rotated]) simp
  define e where "e = binade x"
  define q :: real where "q = 2 powi (e - 52)"
  have qpos: "0 < q"
    by (simp add: q_def)
  have e: "2 powi e \<le> x"
    using binade_bounds [OF assms] by (simp add: e_def)
  have rd: "roundDouble x = of_int (roundHalfEven (x / q)) * q"
    using pos by (simp add: roundDouble_def Let_def q_def e_def)
  have "of_int (roundHalfEven (x / q)) * q - x = (of_int (roundHalfEven (x / q)) - x / q) * q"
    using qpos by (simp add: field_simps)
  then have "\<bar>of_int (roundHalfEven (x / q)) * q - x\<bar> =
             \<bar>of_int (roundHalfEven (x / q)) - x / q\<bar> * q"
    using qpos by (simp only: abs_mult abs_of_pos)
  also have "\<dots> \<le> 1 / 2 * q"
    using qpos roundHalfEven_error [of "x / q"] by (intro mult_right_mono) simp_all
  also have "1 / 2 * q = 2 powi e / 2 ^ 53"
    by (simp add: q_def power_int_diff)
  also have "\<dots> \<le> x / 2 ^ 53"
    using e by (simp add: divide_right_mono)
  finally show ?thesis
    by (simp add: rd)
qed

text \<open>
  Below \<open>2^-1022\<close> the grid is fixed: around the least positive double, \<open>2^-1074\<close>, a
  product is rounded to \<open>2^-1074\<close> or to 0.
\<close>

lemma roundHalfEven_one: "1 / 2 < r \<Longrightarrow> r < 3 / 2 \<Longrightarrow> roundHalfEven r = 1"
  unfolding roundHalfEven_def Let_def by (auto; linarith)

lemma roundHalfEven_zero: "0 \<le> r \<Longrightarrow> r < 1 / 2 \<Longrightarrow> roundHalfEven r = 0"
  unfolding roundHalfEven_def Let_def by (auto; linarith)

lemma roundDouble_subnormal:
  assumes "0 < x" and "x < 2 powi (- 1022)"
  shows "roundDouble x = of_int (roundHalfEven (x * 2 ^ 1074)) / 2 ^ 1074"
proof -
  have "binade x = - 1022"
    using assms(2) by (simp add: binade_def)
  then have "roundDouble x = of_int (roundHalfEven (x / 2 powi (- 1074))) * 2 powi (- 1074)"
    using assms(1) by (simp add: roundDouble_def Let_def)
  then show ?thesis
    by (simp add: power_int_minus field_simps)
qed

lemma timesDouble_least_kept:
  assumes "1 / 2 < p" and "p < 3 / 2"
  shows "timesDouble (2 powi (- 1074)) p = 2 powi (- 1074)"
proof -
  have eq: "2 powi (- 1074) * p = p / 2 ^ 1074"
    by (simp add: power_int_minus field_simps)
  have pos: "0 < p / 2 ^ 1074"
    using assms(1) by simp
  have "p / 2 ^ 1074 < 2 / 2 ^ 1074"
    using assms(2) by (simp add: divide_strict_right_mono)
  also have "\<dots> < 2 powi (- 1022)"
    by (simp add: power_int_minus field_simps)
  finally have small: "p / 2 ^ 1074 < 2 powi (- 1022)" .
  have "roundDouble (p / 2 ^ 1074) = of_int (roundHalfEven (p / 2 ^ 1074 * 2 ^ 1074)) / 2 ^ 1074"
    by (rule roundDouble_subnormal [OF pos small])
  also have "p / 2 ^ 1074 * 2 ^ 1074 = p"
    by simp
  also have "roundHalfEven p = 1"
    by (rule roundHalfEven_one [OF assms])
  finally show ?thesis
    by (simp add: timesDouble_def eq power_int_minus field_simps)
qed

lemma timesDouble_least_lost:
  assumes "0 < p" and "p < 1 / 2"
  shows "timesDouble (2 powi (- 1074)) p = 0"
proof -
  have eq: "2 powi (- 1074) * p = p / 2 ^ 1074"
    by (simp add: power_int_minus field_simps)
  have pos: "0 < p / 2 ^ 1074"
    using assms(1) by simp
  have "p / 2 ^ 1074 < 2 / 2 ^ 1074"
    using assms(2) by (simp add: divide_strict_right_mono)
  also have "\<dots> < 2 powi (- 1022)"
    by (simp add: power_int_minus field_simps)
  finally have small: "p / 2 ^ 1074 < 2 powi (- 1022)" .
  have "roundDouble (p / 2 ^ 1074) = of_int (roundHalfEven (p / 2 ^ 1074 * 2 ^ 1074)) / 2 ^ 1074"
    by (rule roundDouble_subnormal [OF pos small])
  also have "p / 2 ^ 1074 * 2 ^ 1074 = p"
    by simp
  also have "roundHalfEven p = 0"
    using assms by (intro roundHalfEven_zero) simp_all
  finally show ?thesis
    by (simp add: timesDouble_def eq)
qed

lemma const_up: "(1 + 1 / 2 ^ 53 :: real) ^ 10 \<le> 1 + 1 / 2 ^ 40"
  by (simp add: power_divide field_simps)

lemma const_down: "1 - 1 / 2 ^ 40 \<le> (1 - 1 / 2 ^ 53 :: real) ^ 10"
  by (simp add: power_divide field_simps)

lemma const_gap:
  "(1 + 1 / 2 ^ 53) * (1 + 1 / 2 ^ 40) * (85 / 100) < ((1 - 1 / 2 ^ 53) * (1 - 1 / 2 ^ 40) :: real)"
  by simp

text \<open>
  The correctly rounded \<open>Math.pow\<close> is within the relative error \<open>2^-40\<close> of the exact
  power, for the ten offsets.
\<close>

lemma rel_error_bounds:
  fixes x y u :: real
  assumes "\<bar>y - x\<bar> \<le> x * u"
  shows "x * (1 - u) \<le> y" and "y \<le> x * (1 + u)"
  using assms by (simp_all add: abs_le_iff algebra_simps)

lemma rel_error_from_bounds:
  fixes x y u :: real
  assumes "x * (1 - u) \<le> y" and "y \<le> x * (1 + u)"
  shows "\<bar>y - x\<bar> \<le> x * u"
  using assms by (simp add: abs_le_iff algebra_simps)

lemma literal85_bounds:
  "0.85 * (1 - 1 / 2 ^ 53) \<le> roundDouble 0.85" "roundDouble 0.85 \<le> 0.85 * (1 + 1 / 2 ^ 53)"
proof -
  have "\<bar>roundDouble 0.85 - 0.85\<bar> \<le> 0.85 / 2 ^ 53"
    by (rule roundDouble_error) simp_all
  then have "\<bar>roundDouble 0.85 - 0.85\<bar> \<le> 0.85 * (1 / 2 ^ 53)"
    by simp
  then show "0.85 * (1 - 1 / 2 ^ 53) \<le> roundDouble 0.85"
    and "roundDouble 0.85 \<le> 0.85 * (1 + 1 / 2 ^ 53)"
    by (rule rel_error_bounds)+
qed

lemma pow85_accuracy:
  assumes "k < 10"
  shows "\<bar>pow85 k - 0.85 ^ k\<bar> \<le> 0.85 ^ k / 2 ^ 40"
proof -
  define c :: real where "c = 0.85"
  define u :: real where "u = 1 / 2 ^ 53"
  define d where "d = roundDouble 0.85"
  have c: "0 < c" and u: "0 \<le> u" "u \<le> 1"
    by (simp_all add: c_def u_def)
  have d: "c * (1 - u) \<le> d" "d \<le> c * (1 + u)"
    using literal85_bounds by (simp_all add: c_def u_def d_def)
  have "1 / 2 \<le> c * (1 - u)" and "c * (1 + u) \<le> 1"
    by (simp_all add: c_def u_def)
  with d have d_half: "1 / 2 \<le> d" and d_one: "d \<le> 1"
    by linarith+
  have ck: "0 < c ^ k"
    using c by simp
  have lo: "c ^ k * (1 - u) ^ k \<le> d ^ k"
  proof -
    have "(c * (1 - u)) ^ k \<le> d ^ k"
      using d(1) c u by (intro power_mono) simp_all
    then show ?thesis by (simp add: power_mult_distrib)
  qed
  have hi: "d ^ k \<le> c ^ k * (1 + u) ^ k"
  proof -
    have "d ^ k \<le> (c * (1 + u)) ^ k"
      using d(2) d_half by (intro power_mono) simp_all
    then show ?thesis by (simp add: power_mult_distrib)
  qed
  have "(1 / 2 :: real) ^ 10 \<le> (1 / 2) ^ k"
    using assms by (intro power_decreasing) simp_all
  also have "\<dots> \<le> d ^ k"
    using d_half by (intro power_mono) simp_all
  finally have "(1 / 2 :: real) ^ 10 \<le> d ^ k" .
  moreover have "2 powi (- 1022) \<le> (1 / 2 :: real) ^ 10"
    by (simp add: power_divide)
  ultimately have r1: "2 powi (- 1022) \<le> d ^ k"
    by linarith
  have "d ^ k \<le> 1"
    using d_half d_one by (intro power_le_one) simp_all
  moreover have "(1 :: real) < 2 powi 1024"
    by simp
  ultimately have r2: "d ^ k < 2 powi 1024"
    by linarith
  have "\<bar>roundDouble (d ^ k) - d ^ k\<bar> \<le> d ^ k / 2 ^ 53"
    by (rule roundDouble_error [OF r1 r2])
  then have "\<bar>pow85 k - d ^ k\<bar> \<le> d ^ k * u"
    by (simp add: pow85_def d_def u_def)
  then have p: "d ^ k * (1 - u) \<le> pow85 k" "pow85 k \<le> d ^ k * (1 + u)"
    by (rule rel_error_bounds)+
  have up10: "(1 + u) ^ Suc k \<le> (1 + u) ^ 10"
    using assms u by (intro power_increasing) simp_all
  have down10: "(1 - u) ^ 10 \<le> (1 - u) ^ Suc k"
    using assms u by (intro power_decreasing) simp_all
  have cu: "(1 + u) ^ 10 \<le> 1 + 1 / 2 ^ 40" and cd: "1 - 1 / 2 ^ 40 \<le> (1 - u) ^ 10"
    unfolding u_def by (rule const_up, rule const_down)
  have "pow85 k \<le> d ^ k * (1 + u)"
    by (rule p(2))
  also have "\<dots> \<le> c ^ k * (1 + u) ^ k * (1 + u)"
    using hi u by (intro mult_right_mono) simp_all
  also have "\<dots> = c ^ k * (1 + u) ^ Suc k"
    by simp
  also have "\<dots> \<le> c ^ k * (1 + 1 / 2 ^ 40)"
    using up10 cu ck by (intro mult_left_mono) simp_all
  finally have upper: "pow85 k \<le> c ^ k * (1 + 1 / 2 ^ 40)" .
  have "c ^ k * (1 - 1 / 2 ^ 40) \<le> c ^ k * (1 - u) ^ Suc k"
    using down10 cd ck by (intro mult_left_mono) simp_all
  also have "\<dots> = c ^ k * (1 - u) ^ k * (1 - u)"
    by simp
  also have "\<dots> \<le> d ^ k * (1 - u)"
    using lo u by (intro mult_right_mono) simp_all
  also have "\<dots> \<le> pow85 k"
    by (rule p(1))
  finally have lower: "c ^ k * (1 - 1 / 2 ^ 40) \<le> pow85 k" .
  from lower upper have "\<bar>pow85 k - c ^ k\<bar> \<le> c ^ k * (1 / 2 ^ 40)"
    by (rule rel_error_from_bounds)
  then show ?thesis
    by (simp add: c_def)
qed

lemma pow85_bounds:
  assumes "k < 10"
  shows "0.85 ^ k * (1 - 1 / 2 ^ 40) \<le> pow85 k" and "pow85 k \<le> 0.85 ^ k * (1 + 1 / 2 ^ 40)"
proof -
  have "\<bar>pow85 k - 0.85 ^ k\<bar> \<le> 0.85 ^ k * (1 / 2 ^ 40)"
    using pow85_accuracy [OF assms] by simp
  then show "0.85 ^ k * (1 - 1 / 2 ^ 40) \<le> pow85 k"
    and "pow85 k \<le> 0.85 ^ k * (1 + 1 / 2 ^ 40)"
    by (rule rel_error_bounds)+
qed

lemma pow85_above_half:
  assumes "k < 5"
  shows "1 / 2 < pow85 k" and "pow85 k < 3 / 2"
proof -
  have k: "k < 10"
    using assms by simp
  have "1 / 2 < (0.85 :: real) ^ 4 * (1 - 1 / 2 ^ 40)"
    by (simp add: power_divide)
  also have "\<dots> \<le> 0.85 ^ k * (1 - 1 / 2 ^ 40)"
    using assms by (intro mult_right_mono power_decreasing) simp_all
  also have "\<dots> \<le> pow85 k"
    by (rule pow85_bounds(1) [OF k])
  finally show "1 / 2 < pow85 k" .
  have "pow85 k \<le> 0.85 ^ k * (1 + 1 / 2 ^ 40)"
    by (rule pow85_bounds(2) [OF k])
  also have "\<dots> \<le> 1 * (1 + 1 / 2 ^ 40)"
    by (intro mult_right_mono power_le_one) simp_all
  also have "\<dots> < 3 / 2"
    by simp
  finally show "pow85 k < 3 / 2" .
qed

lemma pow85_below_half:
  assumes "5 \<le> k" and "k < 10"
  shows "0 < pow85 k" and "pow85 k < 1 / 2"
proof -
  have "0 < (0.85 :: real) ^ k * (1 - 1 / 2 ^ 40)"
    by simp
  also have "\<dots> \<le> pow85 k"
    by (rule pow85_bounds(1) [OF assms(2)])
  finally show "0 < pow85 k" .
  have "pow85 k \<le> 0.85 ^ k * (1 + 1 / 2 ^ 40)"
    by (rule pow85_bounds(2) [OF assms(2)])
  also have "\<dots> \<le> 0.85 ^ 5 * (1 + 1 / 2 ^ 40)"
    using assms by (intro mult_right_mono power_decreasing) simp_all
  also have "\<dots> < 1 / 2"
    by (simp add: power_divide)
  finally show "pow85 k < 1 / 2" .
qed

lemma least_double_series:
  "map (\<lambda>k. timesDouble (2 powi (- 1074)) (pow85 k)) [0 ..< 10] =
     [2 powi (- 1074), 2 powi (- 1074), 2 powi (- 1074), 2 powi (- 1074), 2 powi (- 1074),
      0, 0, 0, 0, 0]"
proof -
  have "map (\<lambda>k. timesDouble (2 powi (- 1074)) (pow85 k)) [0 ..< 10] =
        map (\<lambda>k. if k < 5 then 2 powi (- 1074) else 0) [0 ..< 10]"
  proof (rule map_cong [OF refl])
    fix k :: nat
    assume "k \<in> set [0 ..< 10]"
    then have k: "k < 10"
      by simp
    show "timesDouble (2 powi (- 1074)) (pow85 k) = (if k < 5 then 2 powi (- 1074) else 0)"
    proof (cases "k < 5")
      case True
      then show ?thesis
        by (simp only: timesDouble_least_kept [OF pow85_above_half] if_True)
    next
      case False
      then have "5 \<le> k"
        by simp
      with False show ?thesis
        by (simp only: timesDouble_least_lost [OF pow85_below_half [OF _ k]] if_False)
    qed
  qed
  also have "\<dots> = [2 powi (- 1074), 2 powi (- 1074), 2 powi (- 1074), 2 powi (- 1074),
                   2 powi (- 1074), 0, 0, 0, 0, 0]"
    by (simp add: upt_conv_Cons del: upt_Suc)
  finally show ?thesis .
qed

text \<open>
  A product in the normal range stays within the two relative errors of the exact value,
  and 15 per cent is far more than these errors can make up.
\<close>

lemma timesDouble_bounds:
  assumes pv: "1 / 2 ^ 1000 \<le> pv" "pv \<le> 2 ^ 1000"
    and acc: "\<bar>p - 0.85 ^ k\<bar> \<le> 0.85 ^ k / 2 ^ 40"
    and k: "k < 10"
  shows "(1 - 1 / 2 ^ 53) * (1 - 1 / 2 ^ 40) * (pv * 0.85 ^ k) \<le> timesDouble pv p"
    and "timesDouble pv p \<le> (1 + 1 / 2 ^ 53) * (1 + 1 / 2 ^ 40) * (pv * 0.85 ^ k)"
proof -
  define a :: real where "a = 0.85 ^ k"
  define u :: real where "u = 1 / 2 ^ 53"
  define v :: real where "v = 1 / 2 ^ 40"
  have u: "0 \<le> 1 - u" "0 \<le> 1 + u" and v: "1 / 2 \<le> 1 - v" "1 + v \<le> 2" "0 \<le> 1 + v"
    by (simp_all add: u_def v_def)
  have pvpos: "0 < pv"
    using pv(1) by (rule less_le_trans [rotated]) simp
  have "1 / 8 \<le> (0.85 :: real) ^ 9"
    by (simp add: power_divide)
  also have "(0.85 :: real) ^ 9 \<le> 0.85 ^ k"
    using k by (intro power_decreasing) simp_all
  finally have a_lo: "1 / 8 \<le> a"
    unfolding a_def .
  have a_hi: "a \<le> 1"
    unfolding a_def by (intro power_le_one) simp_all
  have "\<bar>p - a\<bar> \<le> a * v"
    using acc by (simp add: a_def v_def)
  then have p: "a * (1 - v) \<le> p" "p \<le> a * (1 + v)"
    by (rule rel_error_bounds)+
  have "1 / 8 * (1 / 2) \<le> a * (1 - v)"
    using a_lo v(1) by (intro mult_mono) simp_all
  with p(1) have p_lo: "1 / 16 \<le> p"
    by simp
  have "a * (1 + v) \<le> 1 * 2"
    using a_hi v(2,3) a_lo by (intro mult_mono) simp_all
  with p(2) have p_hi: "p \<le> 2"
    by simp
  have "1 / 2 ^ 1000 * (1 / 16) \<le> pv * p"
    using pv(1) p_lo by (intro mult_mono) simp_all
  moreover have "2 powi (- 1022) \<le> 1 / 2 ^ 1000 * (1 / 16 :: real)"
    by simp
  ultimately have r1: "2 powi (- 1022) \<le> pv * p"
    by linarith
  have "pv * p \<le> 2 ^ 1000 * 2"
    using pv(2) p_hi pvpos p_lo by (intro mult_mono) simp_all
  moreover have "2 ^ 1000 * 2 < (2 powi 1024 :: real)"
    by simp
  ultimately have r2: "pv * p < 2 powi 1024"
    by linarith
  have "\<bar>roundDouble (pv * p) - pv * p\<bar> \<le> pv * p / 2 ^ 53"
    by (rule roundDouble_error [OF r1 r2])
  then have "\<bar>timesDouble pv p - pv * p\<bar> \<le> pv * p * u"
    by (simp add: timesDouble_def u_def)
  then have f: "pv * p * (1 - u) \<le> timesDouble pv p" "timesDouble pv p \<le> pv * p * (1 + u)"
    by (rule rel_error_bounds)+
  have x_lo: "pv * (a * (1 - v)) \<le> pv * p"
    using p(1) pvpos by (intro mult_left_mono) simp_all
  have x_hi: "pv * p \<le> pv * (a * (1 + v))"
    using p(2) pvpos by (intro mult_left_mono) simp_all
  have "(1 - u) * (1 - v) * (pv * a) = pv * (a * (1 - v)) * (1 - u)"
    by (simp add: algebra_simps)
  also have "\<dots> \<le> pv * p * (1 - u)"
    using x_lo u(1) by (rule mult_right_mono)
  also have "\<dots> \<le> timesDouble pv p"
    by (rule f(1))
  finally show "(1 - 1 / 2 ^ 53) * (1 - 1 / 2 ^ 40) * (pv * 0.85 ^ k) \<le> timesDouble pv p"
    by (simp only: a_def u_def v_def)
  have "timesDouble pv p \<le> pv * p * (1 + u)"
    by (rule f(2))
  also have "\<dots> \<le> pv * (a * (1 + v)) * (1 + u)"
    using x_hi u(2) by (rule mult_right_mono)
  also have "\<dots> = (1 + u) * (1 + v) * (pv * a)"
    by (simp add: algebra_simps)
  finally show "timesDouble pv p \<le> (1 + 1 / 2 ^ 53) * (1 + 1 / 2 ^ 40) * (pv * 0.85 ^ k)"
    by (simp only: a_def u_def v_def)
qed

lemma timesDouble_positive:
  assumes "1 / 2 ^ 1000 \<le> pv" "pv \<le> 2 ^ 1000"
    and "\<bar>p - 0.85 ^ k\<bar> \<le> 0.85 ^ k / 2 ^ 40" and "k < 10"
  shows "0 < timesDouble pv p"
proof -
  have pvpos: "0 < pv"
    using assms(1) by (rule less_le_trans [rotated]) simp
  have "0 < (1 - 1 / 2 ^ 53) * (1 - 1 / 2 ^ 40) * (pv * 0.85 ^ k)"
    using pvpos by simp
  then show ?thesis
    using timesDouble_bounds(1) [OF assms] by linarith
qed

lemma timesDouble_decreasing:
  assumes pv: "1 / 2 ^ 1000 \<le> pv" "pv \<le> 2 ^ 1000"
    and accj: "\<bar>pj - 0.85 ^ j\<bar> \<le> 0.85 ^ j / 2 ^ 40"
    and acck: "\<bar>pk - 0.85 ^ k\<bar> \<le> 0.85 ^ k / 2 ^ 40"
    and jk: "j < k" "k < 10"
  shows "timesDouble pv pk < timesDouble pv pj"
proof -
  define b :: real where "b = pv * 0.85 ^ j"
  have pvpos: "0 < pv"
    using pv(1) by (rule less_le_trans [rotated]) simp
  have bpos: "0 < b"
    using pvpos by (simp add: b_def)
  have j: "j < 10"
    using jk by simp
  have "(0.85 :: real) ^ k \<le> 0.85 ^ Suc j"
    using jk by (intro power_decreasing) simp_all
  then have "pv * 0.85 ^ k \<le> pv * 0.85 ^ Suc j"
    using pvpos by (intro mult_left_mono) simp_all
  then have step: "pv * 0.85 ^ k \<le> 85 / 100 * b"
    by (simp add: b_def)
  have "timesDouble pv pk \<le> (1 + 1 / 2 ^ 53) * (1 + 1 / 2 ^ 40) * (pv * 0.85 ^ k)"
    by (rule timesDouble_bounds(2) [OF pv acck jk(2)])
  also have "\<dots> \<le> (1 + 1 / 2 ^ 53) * (1 + 1 / 2 ^ 40) * (85 / 100 * b)"
    using step by (intro mult_left_mono) simp_all
  also have "\<dots> = (1 + 1 / 2 ^ 53) * (1 + 1 / 2 ^ 40) * (85 / 100) * b"
    by simp
  also have "\<dots> < (1 - 1 / 2 ^ 53) * (1 - 1 / 2 ^ 40) * b"
    using bpos const_gap by (rule mult_strict_right_mono [rotated])
  also have "\<dots> \<le> timesDouble pv pj"
    unfolding b_def by (rule timesDouble_bounds(1) [OF pv accj j])
  finally show ?thesis .
qed

text \<open>
  C8 as written has the ten projected values strictly decreasing and strictly positive for
  every strictly positive predicted value.  The program computes them in doubles.  For the
  least positive double, \<open>2^-1074\<close> (the JSON number \<open>5e-324\<close>), a product with a factor
  above one half is rounded back to \<open>2^-1074\<close> and a product with a factor below one half
  is rounded to 0: the series is five times \<open>2^-1074\<close> and then five times 0.
\<close>

theorem C8_underflow_counterexample:
  "0 < predicted_value
         \<lparr> predicted_value = 2 powi (- 1074), mean_value = None, price_range = None,
           category = None, factors = None, confidence = None, year = 2026 \<rparr> \<and>
   map_sum id (map predictedValue)
     (chartDataWith timesDouble pow85 2026
        \<lparr> predicted_value = 2 powi (- 1074), mean_value = None, price_range = None,
          category = None, factors = None, confidence = None, year = 2026 \<rparr>)
   = Inr [2 powi (- 1074), 2 powi (- 1074), 2 powi (- 1074), 2 powi (- 1074),
          2 powi (- 1074), 0, 0, 0, 0, 0]"
proof -
  have "map_sum id (map predictedValue)
     (chartDataWith timesDouble pow85 2026
        \<lparr> predicted_value = 2 powi (- 1074), mean_value = None, price_range = None,
          category = None, factors = None, confidence = None, year = 2026 \<rparr>)
    = Inr (map (\<lambda>k. timesDouble (2 powi (- 1074)) (pow85 k)) [0 ..< 10])"
    by (simp add: chartDataWith_eq comp_def del: upt_Suc)
  then show ?thesis
    by (simp only: least_double_series) simp
qed

text \<open>
  C8, amended: for every valuation result whose predicted value lies between \<open>2^-1000\<close>
  and \<open>2^1000\<close>, with the products rounded to IEEE doubles and a \<open>Math.pow\<close> whose result
  is within the relative error \<open>2^-40\<close> of \<open>0.85^k\<close>, the ten projected predicted values
  are strictly decreasing in the offset and each of them is strictly positive (so none is
  zero).
\<close>

theorem C8_strictly_decreasing_positive:
  assumes "1 / 2 ^ 1000 \<le> predicted_value d" and "predicted_value d \<le> 2 ^ 1000"
    and "\<forall>k < 10. \<bar>pow k - 0.85 ^ k\<bar> \<le> 0.85 ^ k / 2 ^ 40"
  shows "\<exists>pts. chartDataWith timesDouble pow cy d = Inr pts \<and> length pts = 10 \<and>
           (\<forall>k < 10. 0 < predictedValue (pts ! k)) \<and>
           (\<forall>j k. j < k \<longrightarrow> k < 10 \<longrightarrow> predictedValue (pts ! k) < predictedValue (pts ! j))"
proof -
  have pos: "0 < timesDouble (predicted_value d) (pow k)" if "k < 10" for k
    using assms that by (intro timesDouble_positive [where k = k]) simp_all
  have dec: "timesDouble (predicted_value d) (pow k) < timesDouble (predicted_value d) (pow j)"
    if "j < k" and "k < 10" for j k
    using assms that by (intro timesDouble_decreasing [where j = j and k = k]) simp_all
  show ?thesis
    using pos dec by (simp add: chartDataWith_eq del: upt_Suc)
qed

theorem C8_strictly_decreasing_positive_witness:
  "1 / 2 ^ 1000 \<le> predicted_value
       \<lparr> predicted_value = 17955, mean_value = None, price_range = None,
         category = None, factors = None, confidence = None, year = 2026 \<rparr> \<and>
   predicted_value
       \<lparr> predicted_value = 17955, mean_value = None, price_range = None,
         category = None, factors = None, confidence = None, year = 2026 \<rparr> \<le> 2 ^ 1000 \<and>
   (\<exists>pts. chartDataWith timesDouble pow85 2026
             \<lparr> predicted_value = 17955, mean_value = None, price_range = None,
               category = None, factors = None, confidence = None, year = 2026 \<rparr> = Inr pts \<and>
      length pts = 10 \<and>
      0 < predictedValue (pts ! 9) \<and>
      predictedValue (pts ! 9) < predictedValue (pts ! 8) \<and>
      predictedValue (pts ! 1) < predictedValue (pts ! 0))"
proof -
  have lo: "1 / 2 ^ 1000 \<le> predicted_value
       \<lparr> predicted_value = 17955, mean_value = None, price_range = None,
         category = None, factors = None, confidence = None, year = 2026 \<rparr>"
    by simp
  have hi: "predicted_value
       \<lparr> predicted_value = 17955, mean_value = None, price_range = None,
         category = None, factors = None, confidence = None, year = 2026 \<rparr> \<le> 2 ^ 1000"
    by simp
  have acc: "\<forall>k < 10. \<bar>pow85 k - 0.85 ^ k\<bar> \<le> 0.85 ^ k / 2 ^ 40"
    using pow85_accuracy by blast
  from C8_strictly_decreasing_positive [OF lo hi acc, of 2026]
  obtain pts where
    "chartDataWith timesDouble pow85 2026
       \<lparr> predicted_value = 17955, mean_value = None, price_range = None,
         category = None, factors = None, confidence = None, year = 2026 \<rparr> = Inr pts"
    "length pts = 10"
    "\<forall>k < 10. 0 < predictedValue (pts ! k)"
    "\<forall>j k. j < k \<longrightarrow> k < 10 \<longrightarrow> predictedValue (pts ! k) < predictedValue (pts ! j)"
    by blast
  then show ?thesis
    using lo hi by (intro conjI exI [of _ pts]) simp_all
qed

subsection \<open>C9: a mean value of zero counts as absent\<close>

text \<open>
  C9: a result whose mean value is present and equal to 0 is rendered exactly as the same
  result without a mean value: every chart point has an undefined mean value and no
  market-average line is drawn.  A predicted value of 0 gives ten predicted values of 0.
\<close>

theorem C9_zero_mean_is_absent:
  "(mean_value d = Some 0 \<longrightarrow>
      PredictionChart cy (Some d) l = PredictionChart cy (Some (d\<lparr> mean_value := None \<rparr>)) l \<and>
      (\<exists>v. PredictionChart cy (Some d) l = Inr v \<and> length (pointsOf v) = 10 \<and>
           (\<forall>p \<in> set (pointsOf v). meanValue p = None) \<and>
           ''meanValue'' \<notin> set (linesOf v))) \<and>
   (predicted_value d = 0 \<longrightarrow>
      (\<exists>pts. chartData cy d = Inr pts \<and> length pts = 10 \<and>
           (\<forall>p \<in> set pts. predictedValue p = 0)))"
  by (auto simp add: PredictionChart_def chartData_eq rangeLine_eq chartLines_def
        chartTitle_def factorsOrDefault_def truthyNumber_def simp del: upt_Suc)

theorem C9_zero_mean_is_absent_witness:
  "mean_value \<lparr> predicted_value = 0, mean_value = Some 0, price_range = None,
                category = None, factors = None, confidence = None, year = 2026 \<rparr> = Some 0 \<and>
   predicted_value \<lparr> predicted_value = 0, mean_value = Some 0, price_range = None,
                     category = None, factors = None, confidence = None, year = 2026 \<rparr> = 0 \<and>
   PredictionChart 2026
     (Some \<lparr> predicted_value = 0, mean_value = Some 0, price_range = None,
             category = None, factors = None, confidence = None, year = 2026 \<rparr>) False =
   PredictionChart 2026
     (Some \<lparr> predicted_value = 0, mean_value = None, price_range = None,
             category = None, factors = None, confidence = None, year = 2026 \<rparr>) False \<and>
   (\<exists>pts. chartData 2026
             \<lparr> predicted_value = 0, mean_value = Some 0, price_range = None,
               category = None, factors = None, confidence = None, year = 2026 \<rparr> = Inr pts \<and>
      length pts = 10)"
  using C9_zero_mean_is_absent [of
          "\<lparr> predicted_value = 0, mean_value = Some 0, price_range = None,
             category = None, factors = None, confidence = None, year = 2026 \<rparr>" 2026 False]
  by auto

subsection \<open>C10: a result without factors\<close>

text \<open>
  C10: when the factors object is absent the component still renders, with the defaults
  base value 0 and multipliers 1: the breakdown shows the currency text of 0 and three
  one-decimal percentages of 0.
\<close>

theorem C10_default_factors:
  assumes "factors d = None"
  shows "factorsOrDefault d =
           \<lparr> base_value = 0, trim_multiplier = 1, condition_multiplier = 1,
             mileage_multiplier = 1 \<rparr> \<and>
         (\<exists>v. PredictionChart cy (Some d) l = Inr v \<and>
           take 4 (breakdownOf v) =
             [[Text ''Base Value: '', Currency 0],
              [Text ''Trim Adjustment: '', Fixed1 0, Text ''%''],
              [Text ''Condition Impact: '', Fixed1 0, Text ''%''],
              [Text ''Mileage Impact: '', Fixed1 0, Text ''%'']])"
  using assms
  by (simp add: PredictionChart_def chartData_eq rangeLine_eq factorsOrDefault_def
        factorLines_def defaultFactors_def)

theorem C10_default_factors_witness:
  "factors \<lparr> predicted_value = 17955, mean_value = None, price_range = None,
             category = None, factors = None, confidence = None, year = 2026 \<rparr> = None \<and>
   (\<exists>v. PredictionChart 2026
           (Some \<lparr> predicted_value = 17955, mean_value = None, price_range = None,
                   category = None, factors = None, confidence = None, year = 2026 \<rparr>)
           False = Inr v \<and>
        breakdownOf v =
          [[Text ''Base Value: '', Currency 0],
           [Text ''Trim Adjustment: '', Fixed1 0, Text ''%''],
           [Text ''Condition Impact: '', Fixed1 0, Text ''%''],
           [Text ''Mileage Impact: '', Fixed1 0, Text ''%'']])"
  using C10_default_factors [of
          "\<lparr> predicted_value = 17955, mean_value = None, price_range = None,
             category = None, factors = None, confidence = None, year = 2026 \<rparr>" 2026 False]
  by (auto simp add: PredictionChart_def chartData_eq rangeLine_eq confidenceLine_def
        factorLines_def)

section \<open>Properties of the form\<close>

subsection \<open>C3 and C4: the dependent-field cascade\<close>

text \<open>
  C3 as written has every change of make or model reset model, trim and year to the empty
  value.  The year is never emptied: it goes back to the current calendar year.  And a
  change of the model keeps the model that was just chosen.
\<close>

theorem C3_year_not_emptied_counterexample:
  "handleChange 2026 ''make'' (Str ''Toyota'') (initialFormData 2026) ''year'' \<noteq> Some (Str '''') \<and>
   handleChange 2026 ''model'' (Str ''Corolla'') (initialFormData 2026) ''model'' \<noteq> Some (Str '''')"
  by (simp add: handleChange_def initialFormData_def)

text \<open>
  C3, amended: for every prior form state, a change of the make sets the make, resets
  model and trim to the empty string and the year to the current calendar year; a change
  of the model sets the model, resets the trim to the empty string and the year to the
  current calendar year, and leaves the make as it was.
\<close>

theorem C3_cascade:
  "handleChange cy ''make'' v prev ''make'' = Some v \<and>
   handleChange cy ''make'' v prev ''model'' = Some (Str '''') \<and>
   handleChange cy ''make'' v prev ''trim'' = Some (Str '''') \<and>
   handleChange cy ''make'' v prev ''year'' = Some (Num cy) \<and>
   handleChange cy ''model'' v prev ''model'' = Some v \<and>
   handleChange cy ''model'' v prev ''trim'' = Some (Str '''') \<and>
   handleChange cy ''model'' v prev ''year'' = Some (Num cy) \<and>
   handleChange cy ''model'' v prev ''make'' = prev ''make''"
  by (simp add: handleChange_def)

theorem C3_cascade_witness:
  "handleChange 2026 ''model'' (Str ''Corolla'')
     (handleChange 2026 ''make'' (Str ''Toyota'') (initialFormData 2026)) ''make''
     = Some (Str ''Toyota'') \<and>
   handleChange 2026 ''model'' (Str ''Corolla'')
     (handleChange 2026 ''make'' (Str ''Toyota'') (initialFormData 2026)) ''year''
     = Some (Num 2026)"
  using C3_cascade [of 2026 "Str ''Corolla''"
          "handleChange 2026 ''make'' (Str ''Toyota'') (initialFormData 2026)"]
    C3_cascade [of 2026 "Str ''Toyota''" "initialFormData 2026"]
  by simp

text \<open>
  C4: for every prior form state, a change of the make clears model and trim to the empty
  string and resets the year to the current calendar year; the fields that do not depend
  on the make keep their values.
\<close>

theorem C4_make_change_resets:
  "handleChange cy ''make'' v prev ''model'' = Some (Str '''') \<and>
   handleChange cy ''make'' v prev ''trim'' = Some (Str '''') \<and>
   handleChange cy ''make'' v prev ''year'' = Some (Num cy) \<and>
   handleChange cy ''make'' v prev ''mileage'' = prev ''mileage'' \<and>
   handleChange cy ''make'' v prev ''condition'' = prev ''condition'' \<and>
   handleChange cy ''make'' v prev ''zip_code'' = prev ''zip_code''"
  by (simp add: handleChange_def)

theorem C4_make_change_resets_witness:
  "handleChange 2027 ''make'' (Str ''Honda'')
     [''make'' \<mapsto> Str ''Toyota'', ''model'' \<mapsto> Str ''Corolla'', ''trim'' \<mapsto> Str ''LE'',
      ''year'' \<mapsto> Str ''2015''] ''year'' = Some (Num 2027) \<and>
   handleChange 2027 ''make'' (Str ''Honda'')
     [''make'' \<mapsto> Str ''Toyota'', ''model'' \<mapsto> Str ''Corolla'', ''trim'' \<mapsto> Str ''LE'',
      ''year'' \<mapsto> Str ''2015''] ''model'' = Some (Str '''')"
  using C4_make_change_resets [of 2027 "Str ''Honda''"
          "[''make'' \<mapsto> Str ''Toyota'', ''model'' \<mapsto> Str ''Corolla'', ''trim'' \<mapsto> Str ''LE'',
            ''year'' \<mapsto> Str ''2015'']"]
  by simp

subsection \<open>Sorting\<close>

lemma insertSorted_head:
  "\<forall>y \<in> set ys. cmp x y \<le> 0 \<Longrightarrow> insertSorted cmp x ys = x # ys"
  by (cases ys) auto

lemma sortJS_sorted_id:
  "sorted_wrt (\<lambda>a b. cmp a b \<le> 0) xs \<Longrightarrow> sortJS cmp xs = xs"
  unfolding sortJS_def by (induction xs) (auto simp: insertSorted_head)

lemma set_insertSorted: "set (insertSorted cmp x ys) = insert x (set ys)"
  by (induction ys) auto

lemma mset_insertSorted: "mset (insertSorted cmp x ys) = add_mset x (mset ys)"
  by (induction ys) auto

lemma mset_sortJS: "mset (sortJS cmp xs) = mset xs"
  unfolding sortJS_def by (induction xs) (auto simp: mset_insertSorted)

lemma sorted_insertSorted:
  assumes total: "\<And>a b. cmp a b \<le> 0 \<or> cmp b a \<le> 0"
    and trans: "\<And>a b c. cmp a b \<le> 0 \<Longrightarrow> cmp b c \<le> 0 \<Longrightarrow> cmp a c \<le> 0"
  shows "sorted_wrt (\<lambda>a b. cmp a b \<le> 0) ys \<Longrightarrow>
         sorted_wrt (\<lambda>a b. cmp a b \<le> 0) (insertSorted cmp x ys)"
proof (induction ys)
  case Nil
  then show ?case by simp
next
  case (Cons y ys)
  show ?case
  proof (cases "cmp x y \<le> 0")
    case True
    with Cons.prems show ?thesis by (auto intro: trans)
  next
    case False
    with total [of x y] have "cmp y x \<le> 0" by simp
    with False Cons show ?thesis by (auto simp: set_insertSorted)
  qed
qed

lemma sorted_sortJS:
  assumes total: "\<And>a b. cmp a b \<le> 0 \<or> cmp b a \<le> 0"
    and trans: "\<And>a b c. cmp a b \<le> 0 \<Longrightarrow> cmp b c \<le> 0 \<Longrightarrow> cmp a c \<le> 0"
  shows "sorted_wrt (\<lambda>a b. cmp a b \<le> 0) (sortJS cmp xs)"
  unfolding sortJS_def
  by (induction xs) (auto intro!: sorted_insertSorted total intro: trans)

lemma lexCompare_total: "lexCompare a b \<le> 0 \<or> lexCompare b a \<le> 0"
  by (induction a b rule: lexCompare.induct) auto

lemma lexCompare_trans:
  "lexCompare a b \<le> 0 \<Longrightarrow> lexCompare b c \<le> 0 \<Longrightarrow> lexCompare a c \<le> 0"
proof (induction a arbitrary: b c)
  case Nil
  then show ?case by (cases c) auto
next
  case (Cons x xs)
  then show ?case
    by (cases b; cases c) (auto split: if_splits)
qed

subsection \<open>C5: the year list\<close>

lemma yearsData_eq: "yearsData cy = map (\<lambda>i. \<lparr> CarYear.year = cy - int i \<rparr>) [0 ..< 30]"
  unfolding yearsData_def
  by (rule sortJS_sorted_id) (simp add: sorted_wrt_map del: upt_Suc)

text \<open>
  C5: whenever a model is selected, the generated year list holds exactly 30 pairwise
  distinct years in strictly descending order, the first and greatest of them the current
  calendar year: the years \<open>cy, cy - 1, ..., cy - 29\<close>.  The effect computes the list from
  the current year alone; it takes no response of any request.
\<close>

theorem C5_year_list:
  assumes "model \<noteq> []"
  shows "length (years (generateYears cy model s)) = 30 \<and>
         distinct (map CarYear.year (years (generateYears cy model s))) \<and>
         sorted_wrt (>) (map CarYear.year (years (generateYears cy model s))) \<and>
         hd (map CarYear.year (years (generateYears cy model s))) = cy \<and>
         map CarYear.year (years (generateYears cy model s)) = map (\<lambda>i. cy - int i) [0 ..< 30]"
proof -
  have ys: "map CarYear.year (years (generateYears cy model s)) =
            map (\<lambda>i. cy - int i) [0 ..< 30]"
    using assms by (simp add: generateYears_def yearsData_eq comp_def del: upt_Suc)
  have len: "length (years (generateYears cy model s)) = 30"
    using assms by (simp add: generateYears_def yearsData_eq del: upt_Suc)
  have dist: "distinct (map (\<lambda>i. cy - int i) [0 ..< 30])"
    by (simp add: distinct_map inj_on_def del: upt_Suc)
  have desc: "sorted_wrt (>) (map (\<lambda>i. cy - int i) [0 ..< 30])"
    by (simp add: sorted_wrt_map del: upt_Suc)
  have first: "hd (map (\<lambda>i. cy - int i) [0 ..< 30]) = cy"
    by (simp add: upt_conv_Cons del: upt_Suc)
  show ?thesis
    unfolding ys using len dist desc first by simp
qed

theorem C5_year_list_witness:
  "''Corolla'' \<noteq> [] \<and>
   length (years (generateYears 2026 ''Corolla''
     \<lparr> loading = False, error = [], models = [], trims = [], years = [],
       loadingModels = False, loadingTrims = False \<rparr>)) = 30 \<and>
   hd (map CarYear.year (years (generateYears 2026 ''Corolla''
     \<lparr> loading = False, error = [], models = [], trims = [], years = [],
       loadingModels = False, loadingTrims = False \<rparr>))) = 2026"
proof -
  have sel: "''Corolla'' \<noteq> []" by simp
  show ?thesis
    using sel C5_year_list [OF sel, of 2026
          "\<lparr> loading = False, error = [], models = [], trims = [], years = [],
             loadingModels = False, loadingTrims = False \<rparr>"]
    by blast
qed

subsection \<open>C2: the names of the fetched models\<close>

lemmas string_defs = modelName_def trim_def isWhiteSpace_def toLowerCase_def
  toLowerCaseChar_def startsWith_def substring_def Let_def

lemma startsWith_split:
  assumes "startsWith (toLowerCase n) (toLowerCase mk)"
  shows "\<exists>p rest. n = p @ rest \<and> toLowerCase p = toLowerCase mk \<and>
           substring n (length mk) = rest"
proof -
  from assms have eq: "take (length mk) (map toLowerCaseChar n) = map toLowerCaseChar mk"
    by (simp add: startsWith_def toLowerCase_def)
  have "n = take (length mk) n @ drop (length mk) n"
    by simp
  moreover have "toLowerCase (take (length mk) n) = toLowerCase mk"
    using eq by (simp add: toLowerCase_def take_map)
  ultimately show ?thesis
    unfolding substring_def by blast
qed

lemma modelName_prefix:
  assumes "startsWith (toLowerCase (trim raw)) (toLowerCase mk)"
  shows "\<exists>p rest. trim raw = p @ rest \<and> toLowerCase p = toLowerCase mk \<and>
           modelName mk raw = trim rest"
proof -
  from startsWith_split [OF assms] obtain p rest where
    split: "trim raw = p @ rest" "toLowerCase p = toLowerCase mk"
      "substring (trim raw) (length mk) = rest"
    by blast
  have "modelName mk raw = trim (substring (trim raw) (length mk))"
    using assms by (simp only: modelName_def Let_def if_True)
  with split(3) have "modelName mk raw = trim rest"
    by (simp only:)
  with split(1,2) show ?thesis
    by (intro exI conjI)
qed

lemma modelName_no_prefix:
  "\<not> startsWith (toLowerCase (trim raw)) (toLowerCase mk) \<Longrightarrow> modelName mk raw = trim raw"
  by (simp add: modelName_def Let_def)

lemma names_modelsData_mset:
  "mset (map name (modelsData cmp mk rs)) =
   mset (filter (\<lambda>n. n \<noteq> []) (map (\<lambda>r. modelName mk (Model_Name r)) rs))"
proof -
  have "map name (filter (\<lambda>m. name m \<noteq> []) (map (toCarModel mk) rs)) =
        filter (\<lambda>n. n \<noteq> []) (map (\<lambda>r. modelName mk (Model_Name r)) rs)"
    by (induction rs) (simp_all add: toCarModel_def)
  moreover have "mset (map name (sortJS c xs)) = mset (map name xs)"
    for c and xs :: "CarModel list"
    by (simp only: mset_map mset_sortJS)
  ultimately show ?thesis
    unfolding modelsData_def by (simp only:)
qed

lemma names_modelsData_sorted:
  assumes total: "\<And>a b. cmp a b \<le> 0 \<or> cmp b a \<le> 0"
    and trans: "\<And>a b c. cmp a b \<le> 0 \<Longrightarrow> cmp b c \<le> 0 \<Longrightarrow> cmp a c \<le> 0"
  shows "sorted_wrt (\<lambda>a b. cmp a b \<le> 0) (map name (modelsData cmp mk rs))"
  unfolding modelsData_def sorted_wrt_map
proof (rule sorted_sortJS)
  show "cmp (name a) (name b) \<le> 0 \<or> cmp (name b) (name a) \<le> 0" for a b :: CarModel
    by (rule total)
  show "cmp (name a) (name c) \<le> 0"
    if "cmp (name a) (name b) \<le> 0" and "cmp (name b) (name c) \<le> 0" for a b c :: CarModel
    using that by (rule trans)
qed

lemma corolla_names:
  "map name (modelsData cmp ''Corolla''
      [\<lparr> Model_ID = i1, Model_Name = ''Corolla Corolla LE'', Make_ID = j1 \<rparr>,
       \<lparr> Model_ID = i2, Model_Name = ''Corolla'', Make_ID = j2 \<rparr>]) = [''Corolla LE'']"
  by (simp add: modelsData_def toCarModel_def sortJS_def string_defs)

lemma models_fetchModels:
  "mk \<noteq> [] \<Longrightarrow> models (fetchModels cmp mk (Inr rs) s) = modelsData cmp mk rs"
  by (simp add: fetchModels_def)

text \<open>
  C2 as written has the fetch for the make "Corolla" turn the names
  "Corolla Corolla LE" and "Corolla" into exactly "LE".  The make name is stripped once
  from the front of a name, so the first name becomes "Corolla LE"; the second becomes
  empty and is removed.
\<close>

theorem C2_prefix_stripped_once_counterexample:
  "map name (models (fetchModels lexCompare ''Corolla''
      (Inr [\<lparr> Model_ID = 1, Model_Name = ''Corolla Corolla LE'', Make_ID = 7 \<rparr>,
            \<lparr> Model_ID = 2, Model_Name = ''Corolla'', Make_ID = 7 \<rparr>])
      \<lparr> loading = False, error = [], models = [], trims = [], years = [],
        loadingModels = False, loadingTrims = False \<rparr>))
   \<noteq> [''LE'']"
  by (simp add: fetchModels_def modelsData_def toCarModel_def sortJS_def string_defs)

text \<open>
  C2, amended: a catalog fetch for the make "Corolla" that returns the names
  "Corolla Corolla LE" and "Corolla" yields exactly "Corolla LE".  In general, for a
  non-empty make and model names that are ASCII text, and a comparison that is total and
  transitive: each name is trimmed; when the trimmed name starts with the make name
  (compared in lower case) that one prefix is removed and the rest trimmed again; the empty
  names are removed, so the names kept are exactly the non-empty ones, with their
  multiplicities; and the result is sorted by name under the comparison.
\<close>

theorem C2_model_names:
  assumes total: "\<forall>a b. cmp a b \<le> 0 \<or> cmp b a \<le> 0"
    and trans: "\<forall>a b c. cmp a b \<le> 0 \<longrightarrow> cmp b c \<le> 0 \<longrightarrow> cmp a c \<le> 0"
    and make: "mk \<noteq> []"
    and ascii: "isAscii mk" "\<forall>r \<in> set rs. isAscii (Model_Name r)" "isAscii raw"
  shows "map name (models (fetchModels cmp ''Corolla''
            (Inr [\<lparr> Model_ID = i1, Model_Name = ''Corolla Corolla LE'', Make_ID = j1 \<rparr>,
                  \<lparr> Model_ID = i2, Model_Name = ''Corolla'', Make_ID = j2 \<rparr>]) s))
           = [''Corolla LE''] \<and>
         mset (map name (models (fetchModels cmp mk (Inr rs) s))) =
           mset (filter (\<lambda>n. n \<noteq> []) (map (\<lambda>r. modelName mk (Model_Name r)) rs)) \<and>
         sorted_wrt (\<lambda>a b. cmp a b \<le> 0)
           (map name (models (fetchModels cmp mk (Inr rs) s))) \<and>
         (startsWith (toLowerCase (trim raw)) (toLowerCase mk) \<longrightarrow>
           (\<exists>p rest. trim raw = p @ rest \<and> toLowerCase p = toLowerCase mk \<and>
              modelName mk raw = trim rest)) \<and>
         (\<not> startsWith (toLowerCase (trim raw)) (toLowerCase mk) \<longrightarrow>
            modelName mk raw = trim raw)"
proof (intro conjI)
  show "map name (models (fetchModels cmp ''Corolla''
            (Inr [\<lparr> Model_ID = i1, Model_Name = ''Corolla Corolla LE'', Make_ID = j1 \<rparr>,
                  \<lparr> Model_ID = i2, Model_Name = ''Corolla'', Make_ID = j2 \<rparr>]) s))
           = [''Corolla LE'']"
    by (simp add: models_fetchModels corolla_names)
  show "mset (map name (models (fetchModels cmp mk (Inr rs) s))) =
         mset (filter (\<lambda>n. n \<noteq> []) (map (\<lambda>r. modelName mk (Model_Name r)) rs))"
    by (simp only: models_fetchModels [OF make] names_modelsData_mset)
  have "sorted_wrt (\<lambda>a b. cmp a b \<le> 0) (map name (modelsData cmp mk rs))"
    by (rule names_modelsData_sorted) (use total trans in blast)+
  then show "sorted_wrt (\<lambda>a b. cmp a b \<le> 0)
               (map name (models (fetchModels cmp mk (Inr rs) s)))"
    by (simp only: models_fetchModels [OF make])
  show "startsWith (toLowerCase (trim raw)) (toLowerCase mk) \<longrightarrow>
           (\<exists>p rest. trim raw = p @ rest \<and> toLowerCase p = toLowerCase mk \<and>
              modelName mk raw = trim rest)"
    using modelName_prefix by blast
  show "\<not> startsWith (toLowerCase (trim raw)) (toLowerCase mk) \<longrightarrow>
          modelName mk raw = trim raw"
    using modelName_no_prefix by blast
qed

theorem C2_model_names_witness:
  "map name (models (fetchModels lexCompare ''Kia''
      (Inr [\<lparr> Model_ID = 1, Model_Name = '' kia Rio '', Make_ID = 7 \<rparr>,
            \<lparr> Model_ID = 2, Model_Name = ''KIA'', Make_ID = 7 \<rparr>,
            \<lparr> Model_ID = 3, Model_Name = ''EV6'', Make_ID = 7 \<rparr>])
      \<lparr> loading = False, error = [], models = [], trims = [], years = [],
        loadingModels = False, loadingTrims = False \<rparr>))
     = [''EV6'', ''Rio''] \<and>
   sorted_wrt (\<lambda>a b. lexCompare a b \<le> 0) [''EV6'', ''Rio'']"
proof -
  have total: "\<forall>a b. lexCompare a b \<le> 0 \<or> lexCompare b a \<le> 0"
    using lexCompare_total by blast
  have trans: "\<forall>a b c. lexCompare a b \<le> 0 \<longrightarrow> lexCompare b c \<le> 0 \<longrightarrow> lexCompare a c \<le> 0"
    using lexCompare_trans by blast
  have make: "''Kia'' \<noteq> []"
    by simp
  have ascii: "isAscii ''Kia''"
    "\<forall>r \<in> set [\<lparr> Model_ID = 1, Model_Name = '' kia Rio '', Make_ID = 7 \<rparr>,
                   \<lparr> Model_ID = 2, Model_Name = ''KIA'', Make_ID = 7 \<rparr>,
                   \<lparr> Model_ID = 3, Model_Name = ''EV6'', Make_ID = 7 \<rparr>].
       isAscii (Model_Name r)"
    "isAscii '' kia Rio ''"
    by (simp_all add: isAscii_def)
  have names: "map name (models (fetchModels lexCompare ''Kia''
      (Inr [\<lparr> Model_ID = 1, Model_Name = '' kia Rio '', Make_ID = 7 \<rparr>,
            \<lparr> Model_ID = 2, Model_Name = ''KIA'', Make_ID = 7 \<rparr>,
            \<lparr> Model_ID = 3, Model_Name = ''EV6'', Make_ID = 7 \<rparr>])
      \<lparr> loading = False, error = [], models = [], trims = [], years = [],
        loadingModels = False, loadingTrims = False \<rparr>))
     = [''EV6'', ''Rio'']"
    by code_simp
  from C2_model_names [OF total trans make ascii]
  have "sorted_wrt (\<lambda>a b. lexCompare a b \<le> 0)
          (map name (models (fetchModels lexCompare ''Kia''
      (Inr [\<lparr> Model_ID = 1, Model_Name = '' kia Rio '', Make_ID = 7 \<rparr>,
            \<lparr> Model_ID = 2, Model_Name = ''KIA'', Make_ID = 7 \<rparr>,
            \<lparr> Model_ID = 3, Model_Name = ''EV6'', Make_ID = 7 \<rparr>])
      \<lparr> loading = False, error = [], models = [], trims = [], years = [],
        loadingModels = False, loadingTrims = False \<rparr>)))"
    by blast
  then have "sorted_wrt (\<lambda>a b. lexCompare a b \<le> 0) [''EV6'', ''Rio'']"
    unfolding names .
  with names show ?thesis
    by (rule conjI)
qed

subsection \<open>C6: the three failures\<close>

text \<open>
  C6: each of the three requests handles its own failure and ends in a state (no error is
  handed on).  A failed catalog fetch sets a fixed message and empties the model list; a
  failed trim fetch sets a fixed message and empties the trim list; a failed submission
  sets a fixed message and leaves the valuation result as it was, so the chart rendered
  from it is the chart that was there before.
\<close>

theorem C6_failures_handled:
  assumes "mk \<noteq> []" and "model \<noteq> []"
  shows "fetchModels cmp mk (Inl e) s =
           s\<lparr> error := ''Failed to load car models. Please try again.'', models := [],
              loadingModels := False \<rparr> \<and>
         fetchTrims mk model (Inl e) s =
           s\<lparr> error := ''Failed to load trim options. Please try again.'', trims := [],
              loadingTrims := False \<rparr> \<and>
         fst (handleSubmit (Inl e) (s, app)) =
           s\<lparr> error := ''Failed to get prediction. Please try again.'', loading := False \<rparr> \<and>
         predictionData (snd (handleSubmit (Inl e) (s, app))) = predictionData app \<and>
         PredictionChart cy (predictionData (snd (handleSubmit (Inl e) (s, app)))) l =
           PredictionChart cy (predictionData app) l"
  using assms
  by (simp add: fetchModels_def fetchTrims_def handleSubmit_def handleLoadingChange_def
        Let_def)

theorem C6_failures_handled_witness:
  "models (fetchModels lexCompare ''Toyota'' (Inl RequestFailed)
     \<lparr> loading = False, error = [],
       models = [\<lparr> model_id = 1, name = ''Civic'', make_id = 2 \<rparr>], trims = [''LX''],
       years = [], loadingModels = False, loadingTrims = False \<rparr>) = [] \<and>
   error (fetchTrims ''Toyota'' ''Corolla'' (Inl RequestFailed)
     \<lparr> loading = False, error = [],
       models = [\<lparr> model_id = 1, name = ''Civic'', make_id = 2 \<rparr>], trims = [''LX''],
       years = [], loadingModels = False, loadingTrims = False \<rparr>)
     = ''Failed to load trim options. Please try again.'' \<and>
   predictionData (snd (handleSubmit (Inl RequestFailed)
     (\<lparr> loading = False, error = [],
        models = [\<lparr> model_id = 1, name = ''Civic'', make_id = 2 \<rparr>], trims = [''LX''],
        years = [], loadingModels = False, loadingTrims = False \<rparr>,
      \<lparr> predictionData =
          Some \<lparr> predicted_value = 17955, mean_value = None, price_range = None,
                  category = None, factors = None, confidence = None, year = 2026 \<rparr>,
        isLoading = False \<rparr>)))
     = Some \<lparr> predicted_value = 17955, mean_value = None, price_range = None,
               category = None, factors = None, confidence = None, year = 2026 \<rparr>"
proof -
  have mk: "''Toyota'' \<noteq> []" and model: "''Corolla'' \<noteq> []"
    by simp_all
  note facts = C6_failures_handled [OF mk model, where cmp = lexCompare and e = RequestFailed
    and s = "\<lparr> loading = False, error = [],
       models = [\<lparr> model_id = 1, name = ''Civic'', make_id = 2 \<rparr>], trims = [''LX''],
       years = [], loadingModels = False, loadingTrims = False \<rparr>"
    and app = "\<lparr> predictionData =
          Some \<lparr> predicted_value = 17955, mean_value = None, price_range = None,
                  category = None, factors = None, confidence = None, year = 2026 \<rparr>,
        isLoading = False \<rparr>"]
  show ?thesis
    using facts by simp
qed

end
